theory Spec2Isabelle
  imports Main
begin

section \<open>Python strings\<close>

text \<open>
  A string is a list of characters, each read as a code point below 256.  The helpers
  below are the Python string operations the agent uses: \<^verbatim>\<open>str.strip()\<close>, which
  removes the white space of that range at both ends, \<^verbatim>\<open>sep.join(xs)\<close>, the slice
  \<^verbatim>\<open>s[-200:]\<close> and the decimal rendering of a non-negative integer in an f-string.
\<close>

definition is_space :: "char \<Rightarrow> bool" where
  "is_space c = (c \<in> set [CHR '' '', CHR 0x09, CHR 0x0A, CHR 0x0B, CHR 0x0C, CHR 0x0D,
                              CHR 0x1C, CHR 0x1D, CHR 0x1E, CHR 0x1F, CHR 0x85, CHR 0xA0])"

definition strip :: "string \<Rightarrow> string" where
  "strip s = rev (dropWhile is_space (rev (dropWhile is_space s)))"

fun join :: "string \<Rightarrow> string list \<Rightarrow> string" where
  "join sep [] = []"
| "join sep [x] = x"
| "join sep (x # y # ys) = x @ sep @ join sep (y # ys)"

definition last_chars :: "nat \<Rightarrow> string \<Rightarrow> string" where
  "last_chars k s = drop (length s - k) s"

fun str_of_nat :: "nat \<Rightarrow> string" where
  "str_of_nat n =
     (if n < 10 then [''0123456789'' ! n]
      else str_of_nat (n div 10) @ [''0123456789'' ! (n mod 10)])"

declare str_of_nat.simps [simp del]

definition nl :: string where
  "nl = [CHR 0x0A]"

definition sq :: string where
  "sq = [CHR 0x27]"

section \<open>Element extractor (\<^verbatim>\<open>get_page_state\<close>, the markup part)\<close>

text \<open>
  The HTML parser is a library: the page is given to the model as the list of its tags in
  document order, each with its lower-cased name, its attributes and the concatenated text
  of its descendants (\<^verbatim>\<open>tag.text\<close>).  \<^verbatim>\<open>tag.get(k)\<close> is \<open>None\<close> for a missing
  attribute.
\<close>

record tag =
  tag_name :: string
  tag_attrs :: "string \<rightharpoonup> string"
  tag_text :: string

definition tag_get :: "tag \<Rightarrow> string \<Rightarrow> string option" where
  "tag_get t k = tag_attrs t k"

definition tag_get_default :: "tag \<Rightarrow> string \<Rightarrow> string \<Rightarrow> string" where
  "tag_get_default t k d = (case tag_attrs t k of None \<Rightarrow> d | Some v \<Rightarrow> v)"

text \<open>Python truthiness of a value that is a string or \<^verbatim>\<open>None\<close>, and \<^verbatim>\<open>a or b\<close>.\<close>

definition truthy :: "string option \<Rightarrow> bool" where
  "truthy v = (case v of None \<Rightarrow> False | Some s \<Rightarrow> s \<noteq> [])"

definition py_or :: "string option \<Rightarrow> string option \<Rightarrow> string option" where
  "py_or a b = (if truthy a then a else b)"

definition find_all :: "string list \<Rightarrow> tag list \<Rightarrow> tag list" where
  "find_all names soup = filter (\<lambda>t. tag_name t \<in> set names) soup"

definition label_of :: "tag \<Rightarrow> string option" where
  "label_of t =
     py_or (py_or (py_or (tag_get t ''aria-label'') (Some (tag_text t)))
                  (tag_get t ''placeholder''))
           (tag_get t ''name'')"

definition element_line :: "tag \<Rightarrow> string \<Rightarrow> string" where
  "element_line t label =
     ''<'' @ tag_name t @ ''> Text: '' @ sq @ strip label @ sq @ '' ID: '' @ sq
       @ tag_get_default t ''id'' ''N/A'' @ sq"

text \<open>The \<^verbatim>\<open>for tag in ...\<close> loop, with \<^verbatim>\<open>interactable_elements\<close> as accumulator.\<close>

fun collect_elements :: "tag list \<Rightarrow> string list \<Rightarrow> string list" where
  "collect_elements [] acc = acc"
| "collect_elements (t # ts) acc =
     (let label = label_of t in
      if truthy label \<and> length (the label) < 50
      then collect_elements ts (acc @ [element_line t (the label)])
      else collect_elements ts acc)"

definition interactable_elements :: "tag list \<Rightarrow> string list" where
  "interactable_elements soup =
     take 10 (collect_elements (find_all [''a'', ''button'', ''input''] soup) [])"

definition page_state_text :: "string \<Rightarrow> string \<Rightarrow> tag list \<Rightarrow> string" where
  "page_state_text u title soup =
     ''Current URL: '' @ u @ nl @
     ''Page Title: '' @ title @ nl @
     ''Visible Interactable Elements (Top 10):'' @ nl @
     join nl (interactable_elements soup)"

section \<open>Exceptions\<close>

text \<open>
  Exceptions are values.  \<open>TimeoutException\<close> and \<open>NoSuchElementException\<close> are the two
  classes the action methods catch; \<open>AttributeError\<close> and \<open>TypeError\<close> are what Python
  raises when an attribute is missing, a value is not callable or a call has the wrong
  number of arguments; \<open>External\<close> is any other exception of class \<^verbatim>\<open>Exception\<close>.
\<close>

datatype exn =
    TimeoutException
  | NoSuchElementException
  | AttributeError string
  | TypeError string
  | External string

section \<open>The agent's state\<close>

text \<open>
  A report entry is a dictionary; \<open>url_after = None\<close> is an entry without that key.
\<close>

record action_record =
  step :: nat
  action :: string
  status :: string
  url_after :: "string option"

record report =
  url :: string
  actions :: "action_record list"
  summary :: string

text \<open>
  \<open>quit_calls\<close> counts the calls of \<^verbatim>\<open>driver.quit()\<close> and \<open>llm_calls\<close> the calls of
  the language model made so far.
\<close>

record 'b agent =
  driver :: 'b
  quit_calls :: nat
  start_url :: string
  test_report :: report
  history :: string
  max_steps :: nat
  llm_calls :: nat

text \<open>
  The result of evaluating an expression on the agent: it returned (the value is
  discarded by the caller), it raised an exception of class \<^verbatim>\<open>Exception\<close> (the agent
  keeps what was done before the raise), or control never comes back to the caller
  (\<open>Diverges\<close>: the evaluation runs for ever, or it is left by an exit of the
  interpreter, which no \<^verbatim>\<open>except Exception\<close> of the program catches).
\<close>

datatype 'b res = Ok "'b agent" | Raised exn "'b agent" | Diverges

section \<open>The external collaborators\<close>

text \<open>
  The browser driver, the language-model service, the library functions and the Python
  evaluator are not part of the repository: they are parameters of the embedding,
  collected in one record.
  \<^item> \<open>urljoin\<close> is \<^verbatim>\<open>urllib.parse.urljoin\<close>; \<open>by_const\<close> gives the value of a
    constant of the driver's \<^verbatim>\<open>By\<close> class, \<open>None\<close> for a name it does not have;
    \<open>exn_text e\<close> is the text \<^verbatim>\<open>{e}\<close> of an exception in an f-string.
  \<^item> \<open>client_new k\<close> is the exception raised by \<^verbatim>\<open>genai.Client(api_key=k)\<close>, if any;
    \<open>chrome_new\<close> is the outcome of \<^verbatim>\<open>webdriver.Chrome(options=...)\<close>: an exception
    or the new browser session.
  \<^item> The browser session is an abstract state \<open>'b\<close>.  A driver command returns the new
    session state and the exception it raised, if any: \<open>b_get u\<close> is
    \<^verbatim>\<open>driver.get(u)\<close>; \<open>b_click by loc\<close> is the bounded wait for the element followed
    by \<^verbatim>\<open>click()\<close>; \<open>b_type by loc txt\<close> is the wait followed by \<^verbatim>\<open>clear()\<close> and
    \<^verbatim>\<open>send_keys(txt)\<close>; \<open>b_sleep\<close> is what the page does during
    \<^verbatim>\<open>time.sleep(3)\<close>.
  \<^item> \<open>b_url\<close>, \<open>b_title\<close> and \<open>b_soup\<close> are the reads \<^verbatim>\<open>current_url\<close>,
    \<^verbatim>\<open>title\<close> and the parsed \<^verbatim>\<open>page_source\<close>; they are taken to return on a
    session that has not been quit.
  \<^item> \<open>llm i sys p\<close> is the outcome of the \<open>i\<close>-th call of the language model, with
    system instruction \<open>sys\<close> and prompt \<open>p\<close>: the response text, or the exception
    raised anywhere inside the \<^verbatim>\<open>try\<close> block of \<^verbatim>\<open>generate_action\<close>.
  \<^item> \<open>py_eval code st\<close> is what \<^verbatim>\<open>eval(f"self.{code}")\<close> does, on the agent \<open>st\<close>,
    with a text that is not a plain call (defined below): any Python expression can stand
    there, so it may change every field of the agent, raise, or never return.
  The methods are those of the class \<^verbatim>\<open>AITestingAgent\<close> throughout: the agent record
  holds the data of the agent, and an expression that rebinds a method is not among the
  behaviours \<open>py_eval\<close> ranges over.  Output written with \<^verbatim>\<open>print\<close> is not
  represented.
\<close>

record 'b env =
  urljoin :: "string \<Rightarrow> string \<Rightarrow> string"
  by_const :: "string \<rightharpoonup> string"
  exn_text :: "exn \<Rightarrow> string"
  client_new :: "string option \<Rightarrow> exn option"
  chrome_new :: "exn + 'b"
  b_get :: "string \<Rightarrow> 'b \<Rightarrow> 'b \<times> exn option"
  b_url :: "'b \<Rightarrow> string"
  b_title :: "'b \<Rightarrow> string"
  b_soup :: "'b \<Rightarrow> tag list"
  b_click :: "string \<Rightarrow> string \<Rightarrow> 'b \<Rightarrow> 'b \<times> exn option"
  b_type :: "string \<Rightarrow> string \<Rightarrow> string \<Rightarrow> 'b \<Rightarrow> 'b \<times> exn option"
  b_sleep :: "'b \<Rightarrow> 'b"
  llm :: "nat \<Rightarrow> string \<Rightarrow> string \<Rightarrow> exn + string"
  py_eval :: "string \<Rightarrow> 'b agent \<Rightarrow> 'b res"

section \<open>The agent's methods\<close>

text \<open>
  \<^verbatim>\<open>__init__\<close>: the client of the language model is built first, then the browser session.  The second
  component is the number of browser sessions created.
\<close>

definition new_agent :: "'b env \<Rightarrow> string option \<Rightarrow> string \<Rightarrow> (exn + 'b agent) \<times> nat" where
  "new_agent env api_key u =
     (case client_new env api_key of
        Some e \<Rightarrow> (Inl e, 0)
      | None \<Rightarrow>
          (case chrome_new env of
             Inl e \<Rightarrow> (Inl e, 0)
           | Inr b \<Rightarrow>
               (Inr \<lparr>driver = b, quit_calls = 0, start_url = u,
                     test_report = \<lparr>url = u, actions = [], summary = []\<rparr>,
                     history = [], max_steps = 7, llm_calls = 0\<rparr>, 1)))"

definition get_page_state :: "'b env \<Rightarrow> 'b agent \<Rightarrow> string" where
  "get_page_state env st =
     page_state_text (b_url env (driver st)) (b_title env (driver st)) (b_soup env (driver st))"

definition report_action :: "'b env \<Rightarrow> 'b agent \<Rightarrow> string \<Rightarrow> string \<Rightarrow> 'b agent" where
  "report_action env st description stat =
     (let log = \<lparr>step = length (actions (test_report st)) + 1, action = description,
                 status = stat, url_after = Some (b_url env (driver st))\<rparr>
      in st\<lparr>test_report := (test_report st)\<lparr>actions := actions (test_report st) @ [log]\<rparr>,
            history := history st @ ''Step '' @ str_of_nat (step log) @ '' ('' @ stat @ ''): ''
                         @ description @ nl\<rparr>)"

definition system_prompt :: string where
  "system_prompt =
     ''You are a sophisticated Web Testing Agent. Your goal is to explore the website, '' @
     ''perform functional tests, and look for bugs. '' @
     ''You must respond ONLY with a single, valid Python function call from the list: '' @
     ''1. click_element(By.LINK_TEXT, 'About')'' @
     ''2. type_text(By.ID, 'search-input', 'test query')'' @
     ''3. navigate_to('contact')'' @
     ''4. finish_testing('Your final quality assessment and summary')'' @
     ''Analyze the page state and testing history to decide the best action. Prefer locators by visible text (LINK_TEXT) or unique ID (ID).''"

definition build_prompt :: "string \<Rightarrow> string \<Rightarrow> string" where
  "build_prompt hist page_state =
     ''TESTING HISTORY (last 200 chars):'' @ nl @ last_chars 200 hist @ nl @ nl @
     ''CURRENT PAGE STATE:'' @ nl @ page_state @ nl @ nl @
     ''What is the single, best Python action to take next? Respond ONLY with the function call.''"

definition canned_finish :: string where
  "canned_finish = ''finish_testing('AI communication failed.')''"

definition generate_action :: "'b env \<Rightarrow> 'b agent \<Rightarrow> string \<Rightarrow> string \<times> 'b agent" where
  "generate_action env st page_state =
     (let prompt = build_prompt (history st) page_state;
          st1 = st\<lparr>llm_calls := llm_calls st + 1\<rparr>
      in case llm env (llm_calls st) system_prompt prompt of
           Inr response \<Rightarrow> (strip response, st1)
         | Inl e \<Rightarrow>
             (canned_finish,
              report_action env st1 (''Error calling Gemini: '' @ exn_text env e) ''FATAL_ERROR''))"

definition click_element :: "'b env \<Rightarrow> 'b agent \<Rightarrow> string \<Rightarrow> string \<Rightarrow> 'b res" where
  "click_element env st by_type locator =
     (case b_click env by_type locator (driver st) of
        (b, None) \<Rightarrow>
          Ok (report_action env (st\<lparr>driver := b\<rparr>)
                (''Clicked element found by '' @ by_type @ ''='' @ sq @ locator @ sq @ ''.'') ''PASS'')
      | (b, Some e) \<Rightarrow>
          if e = TimeoutException \<or> e = NoSuchElementException
          then Ok (report_action env (st\<lparr>driver := b\<rparr>)
                     (''Failed to click element '' @ locator @ ''. Element not found or timed out.'')
                     ''ERROR'')
          else Raised e (st\<lparr>driver := b\<rparr>))"

definition type_text :: "'b env \<Rightarrow> 'b agent \<Rightarrow> string \<Rightarrow> string \<Rightarrow> string \<Rightarrow> 'b res" where
  "type_text env st by_type locator txt =
     (case b_type env by_type locator txt (driver st) of
        (b, None) \<Rightarrow>
          Ok (report_action env (st\<lparr>driver := b\<rparr>)
                (''Typed text into field '' @ locator @ ''.'') ''PASS'')
      | (b, Some e) \<Rightarrow>
          if e = TimeoutException \<or> e = NoSuchElementException
          then Ok (report_action env (st\<lparr>driver := b\<rparr>)
                     (''Failed to type text into '' @ locator @ ''. Element not found.'') ''ERROR'')
          else Raised e (st\<lparr>driver := b\<rparr>))"

definition navigate_to :: "'b env \<Rightarrow> 'b agent \<Rightarrow> string \<Rightarrow> 'b res" where
  "navigate_to env st path =
     (let new_url = urljoin env (start_url st) path in
      case b_get env new_url (driver st) of
        (b, Some e) \<Rightarrow> Raised e (st\<lparr>driver := b\<rparr>)
      | (b, None) \<Rightarrow>
          Ok (report_action env (st\<lparr>driver := b\<rparr>) (''Navigated to: '' @ new_url) ''PASS''))"

definition finish_testing :: "'b env \<Rightarrow> 'b agent \<Rightarrow> string \<Rightarrow> 'b res" where
  "finish_testing env st s =
     Ok (report_action env (st\<lparr>test_report := (test_report st)\<lparr>summary := s\<rparr>\<rparr>) s ''FINISH'')"

section \<open>Evaluating the response (\<^verbatim>\<open>eval(f"self.{action_code}")\<close>)\<close>

text \<open>
  The text returned by the language model is evaluated by Python as an expression on the
  agent.  A \<^emph>\<open>plain call\<close> is a text of the form \<^verbatim>\<open>name(arg, ..., arg)\<close> in which
  \<^item> each argument is a string literal, single or double quoted, of printable ASCII
    characters without backslash, or a constant \<^verbatim>\<open>By.NAME\<close> of the driver's locator
    class, written in capitals;
  \<^item> blanks may separate the tokens; and
  \<^item> the name is an identifier that is not a keyword, does not begin with two
    underscores and is none of \<^verbatim>\<open>client\<close>, \<^verbatim>\<open>driver\<close> and \<^verbatim>\<open>run_tests\<close>.
  What Python does with a plain call is determined by the class of the agent and is
  defined below.  Any other text is handed to the parameter \<open>py_eval\<close>.
\<close>

datatype token = Ident string | Str string | LParen | RParen | Comma | Dot

datatype lex_mode = Code string | InStr char string

definition ident_char :: "char \<Rightarrow> bool" where
  "ident_char c =
     (c \<in> set ''abcdefghijklmnopqrstuvwxyzABCDEFGHIJKLMNOPQRSTUVWXYZ0123456789_'')"

definition literal_char :: "char \<Rightarrow> bool" where
  "literal_char c = ((32::nat) \<le> of_char c \<and> of_char c < (127::nat) \<and> c \<noteq> CHR 0x5C)"

definition flush :: "string \<Rightarrow> token list" where
  "flush p = (if p = [] then [] else [Ident p])"

fun lex :: "lex_mode \<Rightarrow> string \<Rightarrow> token list option" where
  "lex (Code p) [] = Some (flush p)"
| "lex (InStr q a) [] = None"
| "lex (InStr q a) (c # cs) =
     (if c = q then map_option (\<lambda>ts. Str a # ts) (lex (Code []) cs)
      else if literal_char c then lex (InStr q (a @ [c])) cs
      else None)"
| "lex (Code p) (c # cs) =
     (if ident_char c then lex (Code (p @ [c])) cs
      else if c = CHR '' '' then map_option (\<lambda>ts. flush p @ ts) (lex (Code []) cs)
      else if c = CHR ''('' then map_option (\<lambda>ts. flush p @ LParen # ts) (lex (Code []) cs)
      else if c = CHR '')'' then map_option (\<lambda>ts. flush p @ RParen # ts) (lex (Code []) cs)
      else if c = CHR '','' then map_option (\<lambda>ts. flush p @ Comma # ts) (lex (Code []) cs)
      else if c = CHR ''.'' then map_option (\<lambda>ts. flush p @ Dot # ts) (lex (Code []) cs)
      else if (c = CHR 0x27 \<or> c = CHR 0x22) \<and> p = [] then lex (InStr c []) cs
      else None)"

definition py_keywords :: "string list" where
  "py_keywords =
     [''False'', ''None'', ''True'', ''and'', ''as'', ''assert'', ''async'', ''await'',
      ''break'', ''class'', ''continue'', ''def'', ''del'', ''elif'', ''else'', ''except'',
      ''finally'', ''for'', ''from'', ''global'', ''if'', ''import'', ''in'', ''is'',
      ''lambda'', ''nonlocal'', ''not'', ''or'', ''pass'', ''raise'', ''return'', ''try'',
      ''while'', ''with'', ''yield'']"

definition valid_ident :: "string \<Rightarrow> bool" where
  "valid_ident p =
     (case p of [] \<Rightarrow> False
      | c # cs \<Rightarrow> c \<notin> set ''0123456789'' \<and> p \<notin> set py_keywords)"

definition const_name :: "string \<Rightarrow> bool" where
  "const_name p =
     (case p of [] \<Rightarrow> False
      | c # cs \<Rightarrow> c \<in> set ''ABCDEFGHIJKLMNOPQRSTUVWXYZ''
                 \<and> set cs \<subseteq> set ''ABCDEFGHIJKLMNOPQRSTUVWXYZ0123456789_'')"

datatype atom = Lit string | ByAttr string

fun parse_more :: "token list \<Rightarrow> atom list option" where
  "parse_more [RParen] = Some []"
| "parse_more (Comma # Str s # ts) = map_option (\<lambda>as. Lit s # as) (parse_more ts)"
| "parse_more (Comma # Ident b # Dot # Ident x # ts) =
     (if b = ''By'' \<and> const_name x then map_option (\<lambda>as. ByAttr x # as) (parse_more ts)
      else None)"
| "parse_more ts = None"

fun parse_args :: "token list \<Rightarrow> atom list option" where
  "parse_args [RParen] = Some []"
| "parse_args (Str s # ts) = map_option (\<lambda>as. Lit s # as) (parse_more ts)"
| "parse_args (Ident b # Dot # Ident x # ts) =
     (if b = ''By'' \<and> const_name x then map_option (\<lambda>as. ByAttr x # as) (parse_more ts)
      else None)"
| "parse_args ts = None"

definition parse_call :: "string \<Rightarrow> (string \<times> atom list) option" where
  "parse_call code =
     (case lex (Code []) code of
        Some (Ident f # LParen # ts) \<Rightarrow>
          (if valid_ident f then map_option (\<lambda>as. (f, as)) (parse_args ts) else None)
      | _ \<Rightarrow> None)"

text \<open>Arguments are evaluated left to right; an unknown constant of \<^verbatim>\<open>By\<close> raises.\<close>

fun eval_args :: "'b env \<Rightarrow> atom list \<Rightarrow> exn + string list" where
  "eval_args env [] = Inr []"
| "eval_args env (Lit s # as) =
     (case eval_args env as of Inl e \<Rightarrow> Inl e | Inr vs \<Rightarrow> Inr (s # vs))"
| "eval_args env (ByAttr x # as) =
     (case by_const env x of
        None \<Rightarrow> Inl (AttributeError x)
      | Some v \<Rightarrow> (case eval_args env as of Inl e \<Rightarrow> Inl e | Inr vs \<Rightarrow> Inr (v # vs)))"


definition agent_methods :: "string list" where
  "agent_methods =
     [''get_page_state'', ''generate_action'', ''click_element'', ''type_text'',
      ''navigate_to'', ''finish_testing'', ''report_action'', ''run_tests'']"

definition data_attributes :: "string list" where
  "data_attributes = [''start_url'', ''test_report'', ''history'', ''max_steps'']"

definition object_attributes :: "string list" where
  "object_attributes = [''client'', ''driver'']"

definition reserved :: "string \<Rightarrow> bool" where
  "reserved f = (take 2 f = ''__'' \<or> f \<in> set object_attributes \<or> f = ''run_tests'')"

definition plain_call :: "string \<Rightarrow> bool" where
  "plain_call code = (case parse_call code of None \<Rightarrow> False | Some (f, atoms) \<Rightarrow> \<not> reserved f)"

text \<open>
  A call of a method of the agent with the evaluated arguments: the wrong number of
  arguments is a \<open>TypeError\<close>.  The value a method returns is discarded by the caller.
\<close>

definition call_method :: "'b env \<Rightarrow> 'b agent \<Rightarrow> string \<Rightarrow> string list \<Rightarrow> 'b res" where
  "call_method env st f args =
     (if f = ''click_element'' then
        (case args of [by_type, locator] \<Rightarrow> click_element env st by_type locator
         | _ \<Rightarrow> Raised (TypeError f) st)
      else if f = ''type_text'' then
        (case args of [by_type, locator, txt] \<Rightarrow> type_text env st by_type locator txt
         | _ \<Rightarrow> Raised (TypeError f) st)
      else if f = ''navigate_to'' then
        (case args of [path] \<Rightarrow> navigate_to env st path | _ \<Rightarrow> Raised (TypeError f) st)
      else if f = ''finish_testing'' then
        (case args of [s] \<Rightarrow> finish_testing env st s | _ \<Rightarrow> Raised (TypeError f) st)
      else if f = ''report_action'' then
        (case args of [description, stat] \<Rightarrow> Ok (report_action env st description stat)
         | _ \<Rightarrow> Raised (TypeError f) st)
      else if f = ''get_page_state'' then
        (case args of [] \<Rightarrow> Ok st | _ \<Rightarrow> Raised (TypeError f) st)
      else if f = ''generate_action'' then
        (case args of [page_state] \<Rightarrow> Ok (snd (generate_action env st page_state))
         | _ \<Rightarrow> Raised (TypeError f) st)
      else Raised (AttributeError f) st)"

text \<open>
  \<^verbatim>\<open>self.name(args)\<close> for a plain call: the attribute is looked up first (a missing one
  raises \<open>AttributeError\<close>), then the arguments are evaluated, then the value is called (a
  string, dictionary or integer attribute is not callable).
\<close>

definition eval_action :: "'b env \<Rightarrow> 'b agent \<Rightarrow> string \<Rightarrow> 'b res" where
  "eval_action env st code =
     (case parse_call code of
        None \<Rightarrow> py_eval env code st
      | Some (f, atoms) \<Rightarrow>
          if reserved f then py_eval env code st
          else if f \<notin> set agent_methods \<and> f \<notin> set data_attributes
          then Raised (AttributeError f) st
          else (case eval_args env atoms of
                  Inl e \<Rightarrow> Raised e st
                | Inr args \<Rightarrow>
                    if f \<in> set data_attributes then Raised (TypeError f) st
                    else call_method env st f args))"

section \<open>The agent loop (\<^verbatim>\<open>run_tests\<close>)\<close>

definition finished :: "'b agent \<Rightarrow> bool" where
  "finished st =
     (actions (test_report st) \<noteq> [] \<and> status (last (actions (test_report st))) = ''FINISH'')"

text \<open>
  One execution of the loop body after the \<^verbatim>\<open>FINISH\<close> test: the body ends normally
  (\<open>Next\<close>), the \<^verbatim>\<open>except\<close> branch records the error and leaves the loop
  (\<open>Break\<close>), or the evaluation of the response never returns (\<open>Hang\<close>).
\<close>

datatype 'b body_result = Next "'b agent" | Break "'b agent" | Hang

definition body :: "'b env \<Rightarrow> 'b agent \<Rightarrow> 'b body_result" where
  "body env st =
     (let page_state = get_page_state env st;
          (action_code, st1) = generate_action env st page_state
      in case eval_action env st1 action_code of
           Ok st2 \<Rightarrow> Next (st2\<lparr>driver := b_sleep env (driver st2)\<rparr>)
         | Raised e st2 \<Rightarrow>
             Break (report_action env st2
                      (''CRITICAL ERROR executing AI code '' @ sq @ action_code @ sq @ '': ''
                         @ exn_text env e) ''FATAL_ERROR'')
         | Diverges \<Rightarrow> Hang)"

text \<open>
  \<^verbatim>\<open>for step in range(n)\<close>.  The loop returns how it ended, the agent after the loop or
  \<open>Hung\<close>, together with the list of the agent states in which the body was entered, one
  per iteration that got past the \<^verbatim>\<open>FINISH\<close> test.
\<close>

datatype 'b loop_end = Done "'b agent" | Hung

fun for_loop :: "'b env \<Rightarrow> nat \<Rightarrow> 'b agent \<Rightarrow> 'b agent list \<times> 'b loop_end" where
  "for_loop env 0 st = ([], Done st)"
| "for_loop env (Suc n) st =
     (if finished st then ([], Done st)
      else case body env st of
             Next st' \<Rightarrow> (case for_loop env n st' of (hs, r) \<Rightarrow> (st # hs, r))
           | Break st' \<Rightarrow> ([st], Done st')
           | Hang \<Rightarrow> ([st], Hung))"

datatype 'b outcome = Returned report "'b agent" | Propagated exn "'b agent" | Never_returns

definition after_loop :: "'b agent list \<times> 'b loop_end \<Rightarrow> 'b outcome" where
  "after_loop lr =
     (case snd lr of
        Hung \<Rightarrow> Never_returns
      | Done st \<Rightarrow> Returned (test_report st) (st\<lparr>quit_calls := quit_calls st + 1\<rparr>))"

text \<open>
  \<^verbatim>\<open>run_tests\<close>, with the list of the agent states in which the loop body was entered;
  \<open>run_tests\<close> is what the caller gets and \<open>run_heads\<close> is that list.
\<close>

definition run_tests_traced :: "'b env \<Rightarrow> 'b agent \<Rightarrow> 'b agent list \<times> 'b outcome" where
  "run_tests_traced env st =
     (case b_get env (start_url st) (driver st) of
        (b, Some e) \<Rightarrow> ([], Propagated e (st\<lparr>driver := b\<rparr>))
      | (b, None) \<Rightarrow>
          (let st1 = report_action env (st\<lparr>driver := b\<rparr>)
                       (''Initial navigation to: '' @ start_url st) ''PASS'';
               lr = for_loop env (max_steps st1) st1
           in (fst lr, after_loop lr)))"

definition run_tests :: "'b env \<Rightarrow> 'b agent \<Rightarrow> 'b outcome" where
  "run_tests env st = snd (run_tests_traced env st)"

definition run_heads :: "'b env \<Rightarrow> 'b agent \<Rightarrow> 'b agent list" where
  "run_heads env st = fst (run_tests_traced env st)"

section \<open>The request handler (\<^verbatim>\<open>run_test_and_show_report\<close>)\<close>

datatype response = Redirect_index | Render report bool

definition setup_error_msg :: string where
  "setup_error_msg =
     ''FATAL ERROR: GEMINI_API_KEY not found in environment. Did you set it in Railway Variables?''"

definition error_report :: "string \<Rightarrow> string \<Rightarrow> string \<Rightarrow> report" where
  "error_report target_url msg s =
     \<lparr>url = target_url,
      actions = [\<lparr>step = 1, action = msg, status = ''FATAL_ERROR'', url_after = None\<rparr>],
      summary = s\<rparr>"

definition execution_error_msg :: "'b env \<Rightarrow> exn \<Rightarrow> string" where
  "execution_error_msg env e =
     ''FATAL ERROR during test execution: '' @ exn_text env e
       @ ''. Check your Chrome WebDriver setup.''"

text \<open>
  The handler is given the \<^verbatim>\<open>url\<close> query parameter and the value of the credential in
  the process environment (\<open>None\<close> when unset).  It answers with a response and the number
  of browser sessions created while serving the request; \<open>None\<close> when the run never
  returns.
\<close>

definition run_test_and_show_report ::
  "'b env \<Rightarrow> string option \<Rightarrow> string option \<Rightarrow> (response \<times> nat) option" where
  "run_test_and_show_report env api_key target_url =
     (if \<not> truthy target_url then Some (Redirect_index, 0)
      else if \<not> truthy api_key
      then Some (Render (error_report (the target_url) setup_error_msg ''Setup Error'') False, 0)
      else (case new_agent env api_key (the target_url) of
              (Inl e, k) \<Rightarrow>
                Some (Render (error_report (the target_url) (execution_error_msg env e)
                                ''Execution Failed'') False, k)
            | (Inr ag, k) \<Rightarrow>
                (case run_tests env ag of
                   Returned r ag' \<Rightarrow> Some (Render r True, k)
                 | Propagated e ag' \<Rightarrow>
                     Some (Render (error_report (the target_url) (execution_error_msg env e)
                                     ''Execution Failed'') False, k)
                 | Never_returns \<Rightarrow> None)))"

section \<open>Observations, invariants and the specification's own notions\<close>

text \<open>What a caller can observe of an evaluation and of a run.\<close>

definition res_agent :: "'b res \<Rightarrow> 'b agent option" where
  "res_agent x = (case x of Ok st \<Rightarrow> Some st | Raised e st \<Rightarrow> Some st | Diverges \<Rightarrow> None)"



definition returned_report :: "'b outcome \<Rightarrow> report option" where
  "returned_report out = (case out of Returned r ag \<Rightarrow> Some r | _ \<Rightarrow> None)"

definition quits_after :: "'b outcome \<Rightarrow> nat option" where
  "quits_after out =
     (case out of Returned r ag \<Rightarrow> Some (quit_calls ag)
      | Propagated e ag \<Rightarrow> Some (quit_calls ag)
      | Never_returns \<Rightarrow> None)"

text \<open>
  The response evaluated by the loop body entered in state \<open>st\<close> (the stripped text of the
  language model, or the canned finishing action), and the responses evaluated in a run.
\<close>

definition response_at :: "'b env \<Rightarrow> 'b agent \<Rightarrow> string" where
  "response_at env st = fst (generate_action env st (get_page_state env st))"

definition run_responses :: "'b env \<Rightarrow> 'b agent \<Rightarrow> string list" where
  "run_responses env st = map (response_at env) (run_heads env st)"


definition no_finish :: "'b agent \<Rightarrow> bool" where
  "no_finish st = (''FINISH'' \<notin> status ` set (actions (test_report st)))"

text \<open>
  A property of the agent is \<open>frame_stable\<close> when the driver, the call counter and
  \<^verbatim>\<open>report_action\<close> keep it, and \<open>stable\<close> when \<^verbatim>\<open>finish_testing\<close> keeps it too.
\<close>

definition frame_stable :: "'b env \<Rightarrow> ('b agent \<Rightarrow> bool) \<Rightarrow> bool" where
  "frame_stable env P =
     ((\<forall>st b. P st \<longrightarrow> P (st\<lparr>driver := b\<rparr>))
      \<and> (\<forall>st k. P st \<longrightarrow> P (st\<lparr>llm_calls := k\<rparr>))
      \<and> (\<forall>st d s. P st \<longrightarrow> P (report_action env st d s)))"

definition stable :: "'b env \<Rightarrow> ('b agent \<Rightarrow> bool) \<Rightarrow> bool" where
  "stable env P =
     (frame_stable env P
      \<and> (\<forall>st s. P st \<longrightarrow>
            P (report_action env (st\<lparr>test_report := (test_report st)\<lparr>summary := s\<rparr>\<rparr>)
                 s ''FINISH'')))"




section \<open>An example environment\<close>

text \<open>
  A browser whose session state is the current URL, on a site where every element lookup
  times out; \<^verbatim>\<open>driver.get\<close> refuses a URL without scheme, as the driver does with an
  invalid-argument error.  The language model answers the \<open>i\<close>-th call with the \<open>i\<close>-th
  entry of a script and with a finishing action once the script is used up.  \<open>urljoin\<close>
  is instantiated for a base without path and a relative path of one segment, where it
  joins the two with a slash.
\<close>

definition example_by :: "string \<rightharpoonup> string" where
  "example_by =
     map_of [(''ID'', ''id''), (''XPATH'', ''xpath''), (''LINK_TEXT'', ''link text''),
             (''PARTIAL_LINK_TEXT'', ''partial link text''), (''NAME'', ''name''),
             (''TAG_NAME'', ''tag name''), (''CLASS_NAME'', ''class name''),
             (''CSS_SELECTOR'', ''css selector'')]"

fun example_exn_text :: "exn \<Rightarrow> string" where
  "example_exn_text TimeoutException = ''timeout''"
| "example_exn_text NoSuchElementException = ''no such element''"
| "example_exn_text (AttributeError a) = ''no attribute '' @ a"
| "example_exn_text (TypeError f) = ''bad call of '' @ f"
| "example_exn_text (External m) = m"

text \<open>
  What Python does with four texts that are not plain calls, each evaluated as
  \<^verbatim>\<open>self.\<close> followed by the text:
  \<^item> \<^verbatim>\<open>finish_testing('x') or self.report_action('y', 'PASS')\<close>: the first call returns
    \<^verbatim>\<open>None\<close>, so the second operand is evaluated too;
  \<^item> \<^verbatim>\<open>test_report['actions'].clear()\<close> empties the action list of the report;
  \<^item> \<^verbatim>\<open>test_report.update(summary='x', url='y')\<close> overwrites two entries of the report;
  \<^item> \<^verbatim>\<open>__class__ and sum(iter(int, 1))\<close>: the class is true, and the sum is taken over
    an iterator that yields 0 for ever.
  No other text that is not a plain call occurs in the examples; for those the example
  evaluator raises.  Its first argument is \<^verbatim>\<open>report_action\<close>.
\<close>

definition example_py_eval ::
  "(string agent \<Rightarrow> string \<Rightarrow> string \<Rightarrow> string agent) \<Rightarrow> string \<Rightarrow> string agent \<Rightarrow> string res"
  where
  "example_py_eval report code st =
     (if code = ''finish_testing('x') or self.report_action('y', 'PASS')'' then
        Ok (report
              (report (st\<lparr>test_report := (test_report st)\<lparr>summary := ''x''\<rparr>\<rparr>) ''x'' ''FINISH'')
              ''y'' ''PASS'')
      else if code = ''test_report['actions'].clear()'' then
        Ok (st\<lparr>test_report := (test_report st)\<lparr>actions := []\<rparr>\<rparr>)
      else if code = ''test_report.update(summary='x', url='y')'' then
        Ok (st\<lparr>test_report := (test_report st)\<lparr>summary := ''x'', url := ''y''\<rparr>\<rparr>)
      else if code = ''__class__ and sum(iter(int, 1))'' then Diverges
      else Raised (External ''SyntaxError'') st)"

definition example_base :: "(exn + string) list \<Rightarrow> string env" where
  "example_base rs =
     \<lparr>urljoin = (\<lambda>base path. base @ ''/'' @ path),
      by_const = example_by,
      exn_text = example_exn_text,
      client_new = (\<lambda>k. None),
      chrome_new = Inr ''data:,'',
      b_get = (\<lambda>u b. if take 7 u = ''http://'' \<or> take 8 u = ''https://'' then (u, None)
                       else (b, Some (External ''invalid argument''))),
      b_url = (\<lambda>b. b),
      b_title = (\<lambda>b. ''Example''),
      b_soup = (\<lambda>b. [\<lparr>tag_name = ''a'', tag_attrs = Map.empty, tag_text = ''Contact''\<rparr>]),
      b_click = (\<lambda>by_type locator b. (b, Some TimeoutException)),
      b_type = (\<lambda>by_type locator txt b. (b, Some TimeoutException)),
      b_sleep = (\<lambda>b. b),
      llm = (\<lambda>i sys p. if i < length rs then rs ! i else Inr ''finish_testing('done')''),
      py_eval = (\<lambda>code st. Raised (External ''SyntaxError'') st)\<rparr>"

definition example_env :: "(exn + string) list \<Rightarrow> string env" where
  "example_env rs =
     (example_base rs)\<lparr>py_eval := example_py_eval (report_action (example_base rs))\<rparr>"

definition example_agent :: "string \<Rightarrow> string agent" where
  "example_agent u =
     \<lparr>driver = ''data:,'', quit_calls = 0, start_url = u,
      test_report = \<lparr>url = u, actions = [], summary = []\<rparr>,
      history = [], max_steps = 7, llm_calls = 0\<rparr>"




section \<open>Basic facts\<close>

lemma report_action_frame [simp]:
  "driver (report_action env st d s) = driver st"
  "quit_calls (report_action env st d s) = quit_calls st"
  "start_url (report_action env st d s) = start_url st"
  "max_steps (report_action env st d s) = max_steps st"
  "llm_calls (report_action env st d s) = llm_calls st"
  "url (test_report (report_action env st d s)) = url (test_report st)"
  "summary (test_report (report_action env st d s)) = summary (test_report st)"
  by (simp_all add: report_action_def Let_def)

lemma report_action_actions [simp]:
  "actions (test_report (report_action env st d s)) =
     actions (test_report st) @
       [\<lparr>step = length (actions (test_report st)) + 1, action = d, status = s,
         url_after = Some (b_url env (driver st))\<rparr>]"
  by (simp add: report_action_def Let_def)

lemma res_agent_simps [simp]:
  "res_agent (Ok st) = Some st"
  "res_agent (Raised e st) = Some st"
  "res_agent Diverges = None"
  by (simp_all add: res_agent_def)

lemma returned_report_simps [simp]:
  "returned_report (Returned r ag) = Some r"
  "returned_report (Propagated e ag) = None"
  "returned_report Never_returns = None"
  by (simp_all add: returned_report_def)

lemma quits_after_simps [simp]:
  "quits_after (Returned r ag) = Some (quit_calls ag)"
  "quits_after (Propagated e ag) = Some (quit_calls ag)"
  "quits_after Never_returns = None"
  by (simp_all add: quits_after_def)

lemma after_loop_Done [simp]:
  "after_loop (hs, Done st)
     = Returned (test_report st) (st\<lparr>quit_calls := quit_calls st + 1\<rparr>)"
  by (simp add: after_loop_def)

lemma after_loop_Hung [simp]: "after_loop (hs, Hung) = Never_returns"
  by (simp add: after_loop_def)

lemma new_agent_fields:
  assumes "fst (new_agent env api_key u) = Inr ag"
  shows "actions (test_report ag) = []" and "summary (test_report ag) = []"
    and "url (test_report ag) = u" and "start_url ag = u" and "max_steps ag = 7"
    and "quit_calls ag = 0" and "llm_calls ag = 0"
  using assms by (auto simp: new_agent_def split: option.splits sum.splits)

lemma new_example_agent:
  "new_agent (example_env rs) (Some k) u = (Inr (example_agent u), 1)"
  by (simp add: new_agent_def example_env_def example_base_def example_agent_def)

text \<open>The two ways \<^verbatim>\<open>run_tests\<close> goes on after the initial navigation.\<close>

lemma run_tests_navigated:
  assumes "b_get env (start_url ag) (driver ag) = (b, None)"
  shows "run_tests env ag
         = after_loop (for_loop env (max_steps ag)
             (report_action env (ag\<lparr>driver := b\<rparr>)
                (''Initial navigation to: '' @ start_url ag) ''PASS''))"
    and "run_heads env ag
         = fst (for_loop env (max_steps ag)
             (report_action env (ag\<lparr>driver := b\<rparr>)
                (''Initial navigation to: '' @ start_url ag) ''PASS''))"
  using assms by (simp_all add: run_tests_def run_heads_def run_tests_traced_def Let_def)

lemma initial_navigation_raises:
  assumes "b_get env (start_url st) (driver st) = (b, Some e)"
  shows "run_tests env st = Propagated e (st\<lparr>driver := b\<rparr>)"
    and "quits_after (run_tests env st) = Some (quit_calls st)"
    and "run_heads env st = []"
  using assms by (simp_all add: run_tests_def run_heads_def run_tests_traced_def)

lemma run_tests_returned:
  assumes "returned_report (run_tests env ag) = Some r"
  obtains b st2 where "b_get env (start_url ag) (driver ag) = (b, None)"
    and "for_loop env (max_steps ag)
           (report_action env (ag\<lparr>driver := b\<rparr>)
              (''Initial navigation to: '' @ start_url ag) ''PASS'')
         = (run_heads env ag, Done st2)"
    and "r = test_report st2"
proof (cases "b_get env (start_url ag) (driver ag)")
  case (Pair b eo)
  show ?thesis
  proof (cases eo)
    case (Some e)
    with Pair assms show ?thesis by (simp add: initial_navigation_raises)
  next
    case None
    note n = run_tests_navigated [OF Pair [unfolded None]]
    define lr where "lr = for_loop env (max_steps ag)
           (report_action env (ag\<lparr>driver := b\<rparr>)
              (''Initial navigation to: '' @ start_url ag) ''PASS'')"
    obtain hs e where lr: "lr = (hs, e)" by (cases lr)
    have hs: "run_heads env ag = hs" using n(2) lr by (simp add: lr_def)
    show ?thesis
    proof (cases e)
      case (Done st2)
      have "r = test_report st2" using assms n(1) lr Done by (simp add: lr_def)
      with that [of b st2] Pair None lr Done hs show ?thesis by (simp add: lr_def)
    next
      case Hung
      with assms n(1) lr show ?thesis by (simp add: lr_def)
    qed
  qed
qed

section \<open>Properties kept by every step of a run\<close>

lemma frame_stable_generate_action:
  assumes "frame_stable env P" and "P st"
  shows "P (snd (generate_action env st ps))"
  using assms by (auto simp: frame_stable_def generate_action_def Let_def split: sum.splits)

lemma frame_stable_click_element:
  assumes "frame_stable env P" and "P st" and "res_agent (click_element env st x y) = Some st'"
  shows "P st'"
  using assms
  by (auto simp: frame_stable_def click_element_def split: prod.splits option.splits if_splits)

lemma frame_stable_type_text:
  assumes "frame_stable env P" and "P st" and "res_agent (type_text env st x y z) = Some st'"
  shows "P st'"
  using assms
  by (auto simp: frame_stable_def type_text_def split: prod.splits option.splits if_splits)

lemma frame_stable_navigate_to:
  assumes "frame_stable env P" and "P st" and "res_agent (navigate_to env st x) = Some st'"
  shows "P st'"
  using assms
  by (auto simp: frame_stable_def navigate_to_def Let_def split: prod.splits option.splits)

lemma stable_finish_testing:
  assumes "stable env P" and "P st" and "res_agent (finish_testing env st x) = Some st'"
  shows "P st'"
  using assms by (auto simp: stable_def finish_testing_def)






lemma call_method_cases:
  assumes "res_agent (call_method env st f args) = Some st'"
  obtains
    (click) x y where "res_agent (click_element env st x y) = Some st'"
  | (type) x y z where "res_agent (type_text env st x y z) = Some st'"
  | (navigate) x where "res_agent (navigate_to env st x) = Some st'"
  | (finish) x where "f = ''finish_testing''" and "args = [x]"
      and "res_agent (finish_testing env st x) = Some st'"
  | (report) d s where "st' = report_action env st d s"
  | (generate) ps where "st' = snd (generate_action env st ps)"
  | (same) "st' = st"
proof (cases "f = ''click_element''")
  case True
  with assms click same show ?thesis
    by (auto simp: call_method_def split: list.splits)
next
  case f1: False
  show ?thesis
  proof (cases "f = ''type_text''")
    case True
    with assms type same show ?thesis
      by (auto simp: call_method_def split: list.splits)
  next
    case f2: False
    show ?thesis
    proof (cases "f = ''navigate_to''")
      case True
      with assms navigate same show ?thesis
        by (auto simp: call_method_def split: list.splits)
    next
      case f3: False
      show ?thesis
      proof (cases "f = ''finish_testing''")
        case True
        with assms finish same show ?thesis
          by (auto simp: call_method_def split: list.splits)
      next
        case f4: False
        show ?thesis
        proof (cases "f = ''report_action''")
          case True
          with assms report same show ?thesis
            by (auto simp: call_method_def split: list.splits)
        next
          case f5: False
          show ?thesis
          proof (cases "f = ''get_page_state''")
            case True
            with assms same show ?thesis
              by (auto simp: call_method_def split: list.splits)
          next
            case f6: False
            with assms f1 f2 f3 f4 f5 generate same show ?thesis
              by (auto simp: call_method_def split: list.splits if_splits)
          qed
        qed
      qed
    qed
  qed
qed

lemma eval_action_cases:
  assumes "plain_call code" and "res_agent (eval_action env st code) = Some st'"
  obtains (call) f atoms args where "parse_call code = Some (f, atoms)"
      and "eval_args env atoms = Inr args"
      and "res_agent (call_method env st f args) = Some st'"
  | (same) "st' = st"
  using assms unfolding eval_action_def plain_call_def
  by (auto split: option.splits if_splits sum.splits prod.splits)


lemma stable_eval_action:
  assumes "stable env P" and "P st" and "plain_call code"
    and "res_agent (eval_action env st code) = Some st'"
  shows "P st'"
proof -
  have fs: "frame_stable env P" using assms(1) by (simp add: stable_def)
  from assms(3,4) show ?thesis
  proof (cases rule: eval_action_cases)
    case (call f atoms args)
    from call(3) show ?thesis
    proof (cases rule: call_method_cases)
      case (click x y)
      then show ?thesis using frame_stable_click_element fs assms(2) by blast
    next
      case (type x y z)
      then show ?thesis using frame_stable_type_text fs assms(2) by blast
    next
      case (navigate x)
      then show ?thesis using frame_stable_navigate_to fs assms(2) by blast
    next
      case (finish x)
      then show ?thesis using stable_finish_testing assms(1,2) by blast
    next
      case (report d s)
      then show ?thesis using fs assms(2) by (simp add: frame_stable_def)
    next
      case (generate ps)
      then show ?thesis using frame_stable_generate_action fs assms(2) by blast
    next
      case same
      then show ?thesis using assms(2) by simp
    qed
  next
    case same
    then show ?thesis using assms(2) by simp
  qed
qed

text \<open>
  The loop body, seen through the response it evaluates: a property kept by the call of
  the language model and by the evaluation of the response is kept by the body.
\<close>

lemma body_preserves:
  assumes fs: "frame_stable env P" and "P st"
    and ev: "\<And>s s'. P s \<Longrightarrow> res_agent (eval_action env s (response_at env st)) = Some s'
               \<Longrightarrow> P s'"
    and b: "body env st = Next st' \<or> body env st = Break st'"
  shows "P st'"
proof -
  obtain code st1 where g: "generate_action env st (get_page_state env st) = (code, st1)"
    by (cases "generate_action env st (get_page_state env st)")
  have c: "response_at env st = code" using g by (simp add: response_at_def)
  have p1: "P st1"
    using frame_stable_generate_action [OF fs assms(2), of "get_page_state env st"] g by simp
  have e: "\<And>x. res_agent (eval_action env st1 code) = Some x \<Longrightarrow> P x"
    using ev [OF p1] c by simp
  show ?thesis
    using b g e fs unfolding body_def Let_def
    by (auto simp: frame_stable_def split: res.splits)
qed


lemma for_loop_invariant:
  assumes step: "\<And>s s'. P s \<Longrightarrow> Q (response_at env s)
                   \<Longrightarrow> body env s = Next s' \<or> body env s = Break s' \<Longrightarrow> P s'"
  shows "for_loop env n st = (hs, Done st') \<Longrightarrow> list_all (\<lambda>s. Q (response_at env s)) hs
           \<Longrightarrow> P st \<Longrightarrow> P st'"
proof (induction n arbitrary: st hs)
  case 0
  then show ?case by simp
next
  case (Suc n)
  show ?case
  proof (cases "finished st")
    case True
    with Suc.prems show ?thesis by simp
  next
    case False
    show ?thesis
    proof (cases "body env st")
      case (Next s)
      obtain hs' r where l: "for_loop env n s = (hs', r)" by (cases "for_loop env n s")
      have hs: "hs = st # hs'" and r: "r = Done st'"
        using Suc.prems(1) False Next l by simp_all
      have "P s" using step [OF Suc.prems(3), of s] Suc.prems(2) hs Next by simp
      moreover have "list_all (\<lambda>s. Q (response_at env s)) hs'" using Suc.prems(2) hs by simp
      ultimately show ?thesis using Suc.IH [of s hs'] l r by simp
    next
      case (Break s)
      have hs: "hs = [st]" and s: "s = st'" using Suc.prems(1) False Break by simp_all
      show ?thesis using step [OF Suc.prems(3), of st'] Suc.prems(2) hs Break s by simp
    next
      case Hang
      with Suc.prems(1) False show ?thesis by simp
    qed
  qed
qed

lemma stable_for_loop:
  assumes "stable env P" and "for_loop env n st = (hs, Done st')"
    and "list_all (\<lambda>s. plain_call (response_at env s)) hs" and "P st"
  shows "P st'"
proof -
  have fs: "frame_stable env P" using assms(1) by (simp add: stable_def)
  have step: "P s'" if "P s" and "plain_call (response_at env s)"
      and "body env s = Next s' \<or> body env s = Break s'" for s s'
    using that body_preserves [OF fs, of s s'] stable_eval_action [OF assms(1)] by blast
  show ?thesis
    by (rule for_loop_invariant [where P = P and Q = plain_call and env = env,
          OF step assms(2) assms(3) assms(4)])
qed







lemma stable_url_after:
  "stable env (\<lambda>st. None \<notin> url_after ` set (actions (test_report st)))"
  by (simp add: stable_def frame_stable_def)

section \<open>The element extractor\<close>









section \<open>The loop and the \<^verbatim>\<open>FINISH\<close> record\<close>



lemma no_finish_driver [simp]: "no_finish (st\<lparr>driver := b\<rparr>) = no_finish st"
  by (simp add: no_finish_def)

lemma finished_driver [simp]: "finished (st\<lparr>driver := b\<rparr>) = finished st"
  by (simp add: finished_def)












section \<open>Evaluating particular responses\<close>



lemma strip_navigate: "strip ''navigate_to('contact')'' = ''navigate_to('contact')''"
  by code_simp

lemma parse_navigate:
  "parse_call ''navigate_to('contact')'' = Some (''navigate_to'', [Lit ''contact''])"
  by code_simp

lemma eval_navigate:
  "eval_action env st ''navigate_to('contact')'' = navigate_to env st ''contact''"
  unfolding eval_action_def parse_navigate
  by (simp add: call_method_def agent_methods_def data_attributes_def object_attributes_def
        reserved_def)

lemma strip_finish:
  "strip ''finish_testing('No issues found')'' = ''finish_testing('No issues found')''"
  by code_simp

lemma parse_finish:
  "parse_call ''finish_testing('No issues found')''
     = Some (''finish_testing'', [Lit ''No issues found''])"
  by code_simp

lemma eval_finish:
  "eval_action env st ''finish_testing('No issues found')''
     = finish_testing env st ''No issues found''"
  unfolding eval_action_def parse_finish
  by (simp add: call_method_def agent_methods_def data_attributes_def object_attributes_def
        reserved_def)



section \<open>Runs\<close>

lemma run_responses_all:
  "list_all Q (run_responses env ag)
     = list_all (\<lambda>s. Q (response_at env s)) (run_heads env ag)"
  by (simp add: run_responses_def list_all_iff)

lemma for_loop_finished: "finished st \<Longrightarrow> for_loop env n st = ([], Done st)"
  by (cases n) simp_all

text \<open>
  Every entry of a report returned by a run of plain calls has the key
  \<^verbatim>\<open>url_after\<close>.
\<close>

lemma returned_entries_have_url_after:
  assumes "fst (new_agent env api_key u) = Inr ag"
    and "list_all plain_call (run_responses env ag)"
    and "returned_report (run_tests env ag) = Some r"
  shows "None \<notin> url_after ` set (actions r)"
proof -
  from assms(3) obtain b st2 where
    loop: "for_loop env (max_steps ag)
             (report_action env (ag\<lparr>driver := b\<rparr>)
                (''Initial navigation to: '' @ start_url ag) ''PASS'')
           = (run_heads env ag, Done st2)"
    and r: "r = test_report st2"
    by (rule run_tests_returned)
  have pc: "list_all (\<lambda>s. plain_call (response_at env s)) (run_heads env ag)"
    using assms(2) by (simp add: run_responses_all)
  have a0: "actions (test_report ag) = []" using assms(1) by (rule new_agent_fields)
  have "None \<notin> url_after ` set (actions (test_report
          (report_action env (ag\<lparr>driver := b\<rparr>)
             (''Initial navigation to: '' @ start_url ag) ''PASS'')))"
    using a0 by simp
  from stable_for_loop [OF stable_url_after loop pc this] show ?thesis unfolding r .
qed




section \<open>The claims\<close>




text \<open>
  Claim C2, evaluated at a failing input.  With the start URL \<^verbatim>\<open>example.test\<close>, which
  \<^verbatim>\<open>driver.get\<close> refuses, the initial navigation raises outside any \<^verbatim>\<open>try\<close>:
  the exception leaves \<^verbatim>\<open>run_tests\<close> and \<^verbatim>\<open>driver.quit()\<close> has not been called.
\<close>
theorem initial_navigation_failure_leaks_session:
  "fst (new_agent (example_env []) (Some ''key'') ''example.test'')
     = Inr (example_agent ''example.test'')
   \<and> run_tests (example_env []) (example_agent ''example.test'')
       = Propagated (External ''invalid argument'') (example_agent ''example.test'')
   \<and> quits_after (run_tests (example_env []) (example_agent ''example.test'')) = Some 0"
  by code_simp










text \<open>
  Claim C7.  Start URL \<^verbatim>\<open>https://example.test\<close>; the browser loads it and the
  contact page and reports the contact URL after loading it; \<^verbatim>\<open>urljoin\<close> resolves
  \<^verbatim>\<open>contact\<close> against the start URL to \<^verbatim>\<open>https://example.test/contact\<close>; the
  language model answers \<^verbatim>\<open>navigate_to('contact')\<close> and then
  \<^verbatim>\<open>finish_testing('No issues found')\<close>.  Then the report has three records, numbered
  1 to 3, with statuses \<^verbatim>\<open>PASS\<close>, \<^verbatim>\<open>PASS\<close>, \<^verbatim>\<open>FINISH\<close>; the second has the
  contact URL as \<^verbatim>\<open>url_after\<close>; the summary is \<^verbatim>\<open>No issues found\<close>; the loop body
  ran twice of the budget of 7; the session was closed once.
\<close>
theorem scenario_navigate_then_finish:
  assumes "fst (new_agent env api_key ''https://example.test'') = Inr ag"
    and "\<And>b. snd (b_get env ''https://example.test'' b) = None"
    and "\<And>b. snd (b_get env ''https://example.test/contact'' b) = None"
    and "\<And>b. b_url env (fst (b_get env ''https://example.test/contact'' b))
               = ''https://example.test/contact''"
    and "urljoin env ''https://example.test'' ''contact'' = ''https://example.test/contact''"
    and "\<And>p. llm env 0 system_prompt p = Inr ''navigate_to('contact')''"
    and "\<And>p. llm env 1 system_prompt p = Inr ''finish_testing('No issues found')''"
  shows "(\<exists>r. returned_report (run_tests env ag) = Some r
            \<and> map step (actions r) = [1, 2, 3]
            \<and> map status (actions r) = [''PASS'', ''PASS'', ''FINISH'']
            \<and> map action (actions r) =
                [''Initial navigation to: https://example.test'',
                 ''Navigated to: https://example.test/contact'', ''No issues found'']
            \<and> url_after (actions r ! 1) = Some ''https://example.test/contact''
            \<and> summary r = ''No issues found'')
         \<and> length (run_heads env ag) = 2 \<and> max_steps ag = 7
         \<and> quits_after (run_tests env ag) = Some 1"
proof -
  note f = new_agent_fields [OF assms(1)]
  define b1 where "b1 = fst (b_get env ''https://example.test'' (driver ag))"
  define st1 where "st1 = report_action env (ag\<lparr>driver := b1\<rparr>)
                            ''Initial navigation to: https://example.test'' ''PASS''"
  define b2 where "b2 = fst (b_get env ''https://example.test/contact'' b1)"
  define st2 where "st2 = report_action env (st1\<lparr>llm_calls := 1, driver := b2\<rparr>)
                            ''Navigated to: https://example.test/contact'' ''PASS''"
  define st3 where "st3 = st2\<lparr>driver := b_sleep env b2\<rparr>"
  define st4 where "st4 = report_action env
        (st3\<lparr>llm_calls := 2, test_report := (test_report st3)\<lparr>summary := ''No issues found''\<rparr>\<rparr>)
        ''No issues found'' ''FINISH''"
  define st5 where "st5 = st4\<lparr>driver := b_sleep env (driver st4)\<rparr>"
  have g1: "b_get env (start_url ag) (driver ag) = (b1, None)"
    using assms(2) [of "driver ag"] f(4) by (simp add: b1_def prod_eq_iff)
  have g2: "b_get env ''https://example.test/contact'' b1 = (b2, None)"
    using assms(3) [of b1] by (simp add: b2_def prod_eq_iff)
  have nf1: "\<not> finished st1" by (simp add: finished_def st1_def)
  have lc1: "llm_calls st1 = 0" using f by (simp add: st1_def)
  have su1: "start_url st1 = ''https://example.test''" using f by (simp add: st1_def)
  have d1: "driver st1 = b1" by (simp add: st1_def)
  have gen1: "generate_action env st1 (get_page_state env st1)
              = (''navigate_to('contact')'', st1\<lparr>llm_calls := 1\<rparr>)"
    using assms(6) lc1 by (simp add: generate_action_def Let_def strip_navigate)
  have nav: "navigate_to env (st1\<lparr>llm_calls := 1\<rparr>) ''contact'' = Ok st2"
    using assms(5) g2 su1 d1 by (simp add: navigate_to_def Let_def st2_def)
  have body1: "body env st1 = Next st3"
    using gen1 nav by (simp add: body_def eval_navigate st3_def st2_def)
  have nf3: "\<not> finished st3" by (simp add: finished_def st3_def st2_def)
  have lc3: "llm_calls st3 = 1" by (simp add: st3_def st2_def)
  have gen3: "generate_action env st3 (get_page_state env st3)
              = (''finish_testing('No issues found')'', st3\<lparr>llm_calls := 2\<rparr>)"
    using assms(7) lc3 by (simp add: generate_action_def Let_def strip_finish)
  have body3: "body env st3 = Next st5"
    using gen3 by (simp add: body_def eval_finish finish_testing_def st5_def st4_def)
  have fin5: "finished st5" by (simp add: finished_def st5_def st4_def)
  have "for_loop env (Suc (Suc (Suc k))) st1 = ([st1, st3], Done st5)" for k
    using nf1 body1 nf3 body3 for_loop_finished [OF fin5, of env "Suc k"] by simp
  from this [of 4] have loop: "for_loop env 7 st1 = ([st1, st3], Done st5)" by simp
  have s1: "report_action env (ag\<lparr>driver := b1\<rparr>)
              (''Initial navigation to: '' @ start_url ag) ''PASS'' = st1"
    using f(4) by (simp add: st1_def)
  note n = run_tests_navigated [OF g1, unfolded s1 f(5) loop]
  have rt: "run_tests env ag = Returned (test_report st5) (st5\<lparr>quit_calls := quit_calls st5 + 1\<rparr>)"
    using n(1) by simp
  have rh: "run_heads env ag = [st1, st3]"
    using n(2) by simp
  have acts: "actions (test_report st5) =
      [\<lparr>step = 1, action = ''Initial navigation to: https://example.test'', status = ''PASS'',
        url_after = Some (b_url env b1)\<rparr>,
       \<lparr>step = 2, action = ''Navigated to: https://example.test/contact'', status = ''PASS'',
        url_after = Some (b_url env b2)\<rparr>,
       \<lparr>step = 3, action = ''No issues found'', status = ''FINISH'',
        url_after = Some (b_url env (b_sleep env b2))\<rparr>]"
    using f by (simp add: st5_def st4_def st3_def st2_def st1_def)
  have u2: "b_url env b2 = ''https://example.test/contact''"
    using assms(4) [of b1] by (simp add: b2_def)
  have su: "summary (test_report st5) = ''No issues found''"
    by (simp add: st5_def st4_def)
  have q: "quit_calls st5 = 0" using f by (simp add: st5_def st4_def st3_def st2_def st1_def)
  show ?thesis
    unfolding rt rh using acts u2 su q f(5) by simp
qed

text \<open>
  Claim C7, witness: the example environment with the two responses of the scenario.
\<close>
theorem scenario_navigate_then_finish_witness:
  "fst (new_agent
          (example_env [Inr ''navigate_to('contact')'', Inr ''finish_testing('No issues found')''])
          (Some ''key'') ''https://example.test'') = Inr (example_agent ''https://example.test'')
   \<and> urljoin
        (example_env [Inr ''navigate_to('contact')'', Inr ''finish_testing('No issues found')''])
        ''https://example.test'' ''contact'' = ''https://example.test/contact''
   \<and> (\<exists>r. returned_report
              (run_tests
                 (example_env [Inr ''navigate_to('contact')'',
                               Inr ''finish_testing('No issues found')''])
                 (example_agent ''https://example.test'')) = Some r
          \<and> map status (actions r) = [''PASS'', ''PASS'', ''FINISH'']
          \<and> url_after (actions r ! 1) = Some ''https://example.test/contact''
          \<and> summary r = ''No issues found'')
   \<and> length (run_heads
        (example_env [Inr ''navigate_to('contact')'', Inr ''finish_testing('No issues found')''])
        (example_agent ''https://example.test'')) = 2"
proof -
  let ?E = "example_env [Inr ''navigate_to('contact')'', Inr ''finish_testing('No issues found')'']"
  let ?A = "example_agent ''https://example.test''"
  have h1: "fst (new_agent ?E (Some ''key'') ''https://example.test'') = Inr ?A"
    by (simp add: new_example_agent)
  have h2: "\<And>b. snd (b_get ?E ''https://example.test'' b) = None"
    by (simp add: example_env_def example_base_def)
  have h3: "\<And>b. snd (b_get ?E ''https://example.test/contact'' b) = None"
    by (simp add: example_env_def example_base_def)
  have h4: "\<And>b. b_url ?E (fst (b_get ?E ''https://example.test/contact'' b))
                  = ''https://example.test/contact''"
    by (simp add: example_env_def example_base_def)
  have h5: "urljoin ?E ''https://example.test'' ''contact'' = ''https://example.test/contact''"
    by (simp add: example_env_def example_base_def)
  have h6: "\<And>p. llm ?E 0 system_prompt p = Inr ''navigate_to('contact')''"
    by (simp add: example_env_def example_base_def)
  have h7: "\<And>p. llm ?E 1 system_prompt p = Inr ''finish_testing('No issues found')''"
    by (simp add: example_env_def example_base_def)
  from scenario_navigate_then_finish [OF h1 h2 h3 h4 h5 h6 h7]
  obtain r where r: "returned_report (run_tests ?E ?A) = Some r"
    "map status (actions r) = [''PASS'', ''PASS'', ''FINISH'']"
    "url_after (actions r ! 1) = Some ''https://example.test/contact''"
    "summary r = ''No issues found''"
    and l: "length (run_heads ?E ?A) = 2"
    by (elim conjE exE)
  have e: "\<exists>r. returned_report (run_tests ?E ?A) = Some r
          \<and> map status (actions r) = [''PASS'', ''PASS'', ''FINISH'']
          \<and> url_after (actions r ! 1) = Some ''https://example.test/contact''
          \<and> summary r = ''No issues found''"
    using r by (intro exI [of _ r] conjI)
  show ?thesis by (rule conjI [OF h1 conjI [OF h5 conjI [OF e l]]])
qed

text \<open>
  Claim C8.  When the credential is unset (or empty), the handler creates no browser
  session whatever the request; for a request that names a target URL it renders, as a
  failure, the report whose summary is \<^verbatim>\<open>Setup Error\<close> and whose single record has
  status \<^verbatim>\<open>FATAL_ERROR\<close> and the set-up message.  The constructor, too, builds the
  model client before the browser: a client that refuses the credential leaves no
  session.
\<close>
theorem missing_credential:
  assumes "\<not> truthy api_key"
  shows "(\<exists>resp. run_test_and_show_report env api_key target_url = Some (resp, 0))
         \<and> (truthy target_url \<longrightarrow>
              (\<exists>r. run_test_and_show_report env api_key target_url = Some (Render r False, 0)
                 \<and> url r = the target_url
                 \<and> summary r = ''Setup Error''
                 \<and> map status (actions r) = [''FATAL_ERROR'']
                 \<and> map action (actions r) = [setup_error_msg]))
         \<and> (\<forall>e u. client_new env api_key = Some e \<longrightarrow>
                new_agent env api_key u = (Inl e, 0))"
  using assms by (simp add: run_test_and_show_report_def error_report_def new_agent_def)

text \<open>
  Claim C8, witness: a request for \<^verbatim>\<open>https://example.test\<close> with the credential unset.
\<close>
theorem missing_credential_witness:
  "\<not> truthy None \<and> truthy (Some ''https://example.test'')
   \<and> run_test_and_show_report (example_env []) None (Some ''https://example.test'')
       = Some (Render (error_report ''https://example.test'' setup_error_msg ''Setup Error'')
                 False, 0)"
proof -
  have h: "\<not> truthy None" by (simp add: truthy_def)
  have t: "truthy (Some ''https://example.test'')" by (simp add: truthy_def)
  from missing_credential [OF h, of "example_env []" "Some ''https://example.test''"]
  show ?thesis using h t by (auto simp: run_test_and_show_report_def)
qed

text \<open>
  Claim C9, evaluated at failing inputs.  The report rendered when the credential is unset,
  and the report rendered when the run raises, each hold a single entry without
  \<^verbatim>\<open>url_after\<close>, unlike the entries written by \<^verbatim>\<open>report_action\<close>.
\<close>
theorem error_report_entries_lack_url_after:
  "run_test_and_show_report (example_env []) None (Some ''https://example.test'')
     = Some (Render
         \<lparr>url = ''https://example.test'',
          actions = [\<lparr>step = 1, action = setup_error_msg, status = ''FATAL_ERROR'',
                      url_after = None\<rparr>],
          summary = ''Setup Error''\<rparr> False, 0)
   \<and> run_test_and_show_report (example_env []) (Some ''key'') (Some ''example.test'')
     = Some (Render
         \<lparr>url = ''example.test'',
          actions = [\<lparr>step = 1,
                      action = ''FATAL ERROR during test execution: invalid argument. Check your Chrome WebDriver setup.'',
                      status = ''FATAL_ERROR'', url_after = None\<rparr>],
          summary = ''Execution Failed''\<rparr> False, 1)"
  by code_simp




end
